theory Spec2Isabelle
  imports Main
begin

section \<open>The TFTP to HTTP gateway of main.go\<close>

text \<open>
  The program is one Go file: \<open>parseBaseURL\<close> validates and normalises the base address
  at startup, \<open>main\<close> stores it with the other options in \<open>globalState\<close> and starts the
  TFTP server, and \<open>tftpReadHandler\<close> serves each read request by an HTTP GET.

  Go strings are byte strings: \<open>string\<close> (a list of \<open>char\<close>, one per byte). The functions of
  the Go standard library and of the TFTP library that the program calls are not part of
  the repository. The small string functions are written out below; the others (parsing
  an address, building and sending an HTTP request, the transfer itself) are parameters of
  the model, collected in the records \<open>lib\<close>, \<open>rf\<close> and in the field \<open>httpClient\<close>.
\<close>

subsection \<open>Library functions on strings\<close>

text \<open>
  \<open>strings.TrimLeft(s, cutset)\<close> removes every leading code point of \<open>s\<close> that occurs in
  \<open>cutset\<close>. The program calls it with the cutset \<open>"/"\<close>, one ASCII byte, where working
  on bytes is exact.
\<close>

definition TrimLeft :: "string \<Rightarrow> string \<Rightarrow> string" where
  "TrimLeft s cutset = dropWhile (\<lambda>c. c \<in> set cutset) s"

text \<open>
  \<open>strings.HasSuffix(s, suffix)\<close> is
  \<^verbatim>\<open>len(s) >= len(suffix) && s[len(s)-len(suffix):] == suffix\<close>.
\<close>

definition HasSuffix :: "string \<Rightarrow> string \<Rightarrow> bool" where
  "HasSuffix s suffix \<longleftrightarrow>
     length suffix \<le> length s \<and> drop (length s - length suffix) s = suffix"

text \<open>\<open>fmt.Sprintf("%d", n)\<close>: the decimal digits of an integer, with a sign when negative.\<close>

definition digit :: "nat \<Rightarrow> char" where
  "digit d = char_of (48 + d)"

fun decimal :: "nat \<Rightarrow> string" where
  "decimal n = (if n < 10 then [digit n] else decimal (n div 10) @ [digit (n mod 10)])"

declare decimal.simps [simp del]

definition Sprintf_d :: "int \<Rightarrow> string" where
  "Sprintf_d n = (if n < 0 then CHR ''-'' # decimal (nat (- n)) else decimal (nat n))"

subsection \<open>Errors and panics\<close>

text \<open>
  An \<open>error\<close> the program holds is either a value it builds itself with \<open>fmt.Errorf\<close>,
  which is the formatted message, or the value a library call handed back, which the
  program passes on unchanged and of which it only uses the message (\<open>%v\<close> in a log
  line). The constructor records which of the two statements made the value; it is not
  something a caller of the handler can read. What a caller reads of an error is
  \<open>Error\<close>, the method of that name: the message. Two errors with the same message look
  the same to it, whichever statement made them.
  \<open>log.Panicf\<close> logs the formatted message and panics with it.
\<close>

datatype lib_error = LibError string

datatype error = Errorf string | Lib lib_error

fun message :: "lib_error \<Rightarrow> string" where
  "message (LibError m) = m"


datatype panic = Panicf string

subsection \<open>The base address: parseBaseURL\<close>

text \<open>
  \<open>url.URL\<close>, with the two fields the program reads and the path. \<open>url.ParseRequestURI\<close>
  and the method \<open>String\<close> of a parsed address belong to the library \<open>net/url\<close> and are
  parameters.
\<close>

record URL =
  Scheme :: string
  Host :: string
  Path :: string

record net_url =
  ParseRequestURI :: "string \<Rightarrow> lib_error + URL"
  URL_String :: "URL \<Rightarrow> string"

text \<open>
  \<^verbatim>\<open>
  func parseBaseURL(baseUrl string, appendPath bool) string {
      u, err := url.ParseRequestURI(baseUrl)
      if err != nil { log.Panicf("FATAL: invalid base URL: %v\n", err) }
      if (u.Scheme == "") { log.Panicf("FATAL: invalid base URL: No scheme found.\n") }
      if (u.Host == "") { log.Panicf("FATAL: invalid base URL: No host found.\n") }
      base := u.String()
      if appendPath && !strings.HasSuffix(base, "/") { return base + "/" }
      else { return base }
  }
  \<close>
\<close>

definition parseBaseURL :: "net_url \<Rightarrow> string \<Rightarrow> bool \<Rightarrow> panic + string" where
  "parseBaseURL url baseUrl appendPath =
     (case ParseRequestURI url baseUrl of
        Inl err \<Rightarrow> Inl (Panicf (''FATAL: invalid base URL: '' @ message err @ ''\<newline>''))
      | Inr u \<Rightarrow>
          if Scheme u = '''' then Inl (Panicf ''FATAL: invalid base URL: No scheme found.\<newline>'')
          else if Host u = '''' then Inl (Panicf ''FATAL: invalid base URL: No host found.\<newline>'')
          else
            let base = URL_String url u
            in if appendPath \<and> \<not> HasSuffix base ''/'' then Inr (base @ ''/'') else Inr base)"

subsection \<open>Requests, responses and the transfer\<close>

text \<open>
  \<open>http.Request\<close>: the method, the address it was built from, the header fields in the
  order \<open>Header.Add\<close> received them (with the names as the program writes them), and the
  credentials set by \<open>SetBasicAuth\<close>, which the library sends with the request as the
  \<open>Authorization\<close> field without waiting for a challenge.
\<close>

record request =
  Method :: string
  RawURL :: string
  Header :: "(string \<times> string) list"
  BasicAuth :: "(string \<times> string) option"

definition Header_Add :: "request \<Rightarrow> string \<Rightarrow> string \<Rightarrow> request" where
  "Header_Add req key val = req\<lparr>Header := Header req @ [(key, val)]\<rparr>"

definition SetBasicAuth :: "request \<Rightarrow> string \<Rightarrow> string \<Rightarrow> request" where
  "SetBasicAuth req username password = req\<lparr>BasicAuth := Some (username, password)\<rparr>"

text \<open>
  \<open>http.Response\<close>, with the fields the program reads. \<open>ContentLength\<close> is an \<open>int64\<close>
  that the program only compares with 0 and passes on; \<open>'b\<close> is the body, a stream the
  program never reads itself.
\<close>

record 'b response =
  StatusCode :: int
  Status :: string
  ContentLength :: int
  Body :: 'b

text \<open>
  \<open>net.UDPAddr\<close>, the peer of the transfer, its address a list of bytes. \<open>IP.String\<close> is a
  library function, and so is \<open>http.NewRequest\<close>, which checks the method and parses the
  address: whether and how it fails is the parameter \<open>NewRequest_error\<close>, and when it does
  not fail it returns a request for this method and address with no header field.
\<close>

record UDPAddr =
  IP :: "nat list"
  Port :: int

record lib =
  IP_String :: "nat list \<Rightarrow> string"
  NewRequest_error :: "string \<Rightarrow> string \<Rightarrow> lib_error option"

definition NewRequest :: "lib \<Rightarrow> string \<Rightarrow> string \<Rightarrow> lib_error + request" where
  "NewRequest lb method url =
     (case NewRequest_error lb method url of
        Some err \<Rightarrow> Inl err
      | None \<Rightarrow> Inr \<lparr>Method = method, RawURL = url, Header = [], BasicAuth = None\<rparr>)"

text \<open>
  The \<open>io.ReaderFrom\<close> the TFTP server hands to the handler is its outgoing transfer (the
  handler asserts so, \<open>rf.(tftp.OutgoingTransfer)\<close>): \<open>RemoteAddr\<close> is the peer,
  \<open>SetSize\<close> returns nothing, and \<open>ReadFrom\<close> sends the body to the peer and returns
  the number of bytes with an error or \<open>nil\<close>.
\<close>

record 'b rf =
  RemoteAddr :: UDPAddr
  ReadFrom :: "'b \<Rightarrow> int \<times> lib_error option"

text \<open>
  The struct \<open>globalState\<close>. The client is the function its method \<open>Do\<close> computes.
\<close>

record 'b globalState =
  httpBaseUrl :: string
  httpClient :: "request \<Rightarrow> lib_error + 'b response"
  appendPath :: bool
  authUsername :: string
  authPassword :: string

text \<open>
  What a run of the handler does to the outside, in order: a log line, the request sent
  with \<open>httpClient.Do\<close>, the calls of \<open>SetSize\<close> and \<open>ReadFrom\<close> on the transfer, and
  the call of \<open>Close\<close> on the body of the response.
\<close>

datatype 'b event =
  ELog string
  | EDo request
  | ESetSize int
  | EReadFrom 'b
  | EClose 'b

subsection \<open>The handler: tftpReadHandler\<close>

text \<open>
  The address of the request:
  \<^verbatim>\<open>
  uri := globalState.httpBaseUrl
  if globalState.appendPath {
      uri = uri + strings.TrimLeft(filename, "/")
  }
  \<close>
\<close>

definition fetchURI :: "'b globalState \<Rightarrow> string \<Rightarrow> string" where
  "fetchURI gs filename =
     (let uri = httpBaseUrl gs
      in if appendPath gs then uri @ TrimLeft filename ''/'' else uri)"

text \<open>
  The header fields and the credentials of the request:
  \<^verbatim>\<open>
  req.Header.Add("X-TFTP-IP", raddr.IP.String())
  req.Header.Add("X-TFTP-Port", fmt.Sprintf("%d", raddr.Port))
  req.Header.Add("X-TFTP-File", filename)
  if globalState.authUsername != "" {
      req.SetBasicAuth(globalState.authUsername, globalState.authPassword)
  }
  \<close>
\<close>

definition decorate :: "lib \<Rightarrow> 'b globalState \<Rightarrow> string \<Rightarrow> UDPAddr \<Rightarrow> request \<Rightarrow> request" where
  "decorate lb gs filename raddr req0 =
     (let req1 = Header_Add req0 ''X-TFTP-IP'' (IP_String lb (IP raddr));
          req2 = Header_Add req1 ''X-TFTP-Port'' (Sprintf_d (Port raddr));
          req3 = Header_Add req2 ''X-TFTP-File'' filename
      in if authUsername gs \<noteq> '''' then SetBasicAuth req3 (authUsername gs) (authPassword gs)
         else req3)"

text \<open>
  The part of the handler that runs once the response is there, under
  \<open>defer resp.Body.Close()\<close>:
  \<^verbatim>\<open>
  if resp.StatusCode == http.StatusNotFound {
      log.Printf("INFO: http FileNotFound response: %s", resp.Status)
      return fmt.Errorf("File not found")
  } else if resp.StatusCode != http.StatusOK {
      log.Printf("ERR: http request returned status %s", resp.Status)
      return fmt.Errorf("HTTP request error: %s", resp.Status)
  }
  if resp.ContentLength >= 0 {
      rf.(tftp.OutgoingTransfer).SetSize(resp.ContentLength)
  }
  _, err = rf.ReadFrom(resp.Body)
  if err != nil {
      log.Printf("ERR: ReadFrom failed: %v", err)
      return err
  }
  return nil
  \<close>
\<close>

definition StatusNotFound :: int where
  "StatusNotFound = 404"

definition StatusOK :: int where
  "StatusOK = 200"

definition respond :: "'b rf \<Rightarrow> 'b response \<Rightarrow> 'b event list \<times> error option" where
  "respond r resp =
     (if StatusCode resp = StatusNotFound then
        ([ELog (''INFO: http FileNotFound response: '' @ Status resp)],
         Some (Errorf ''File not found''))
      else if StatusCode resp \<noteq> StatusOK then
        ([ELog (''ERR: http request returned status '' @ Status resp)],
         Some (Errorf (''HTTP request error: '' @ Status resp)))
      else
        let size = (if ContentLength resp \<ge> 0 then [ESetSize (ContentLength resp)] else [])
        in case snd (ReadFrom r (Body resp)) of
             Some err \<Rightarrow>
               (size @ [EReadFrom (Body resp), ELog (''ERR: ReadFrom failed: '' @ message err)],
                Some (Lib err))
           | None \<Rightarrow> (size @ [EReadFrom (Body resp)], None))"

text \<open>
  The handler. Its result is the trace of the run and the error it returns (\<open>None\<close> for
  \<open>nil\<close>). The deferred \<open>Close\<close> runs when the function returns, on whatever path, once
  the \<open>defer\<close> statement has been reached: after a response has arrived.
\<close>

definition tftpReadHandler ::
  "lib \<Rightarrow> 'b globalState \<Rightarrow> string \<Rightarrow> 'b rf \<Rightarrow> 'b event list \<times> error option" where
  "tftpReadHandler lb gs filename r =
     (let raddr = RemoteAddr r;
          t0 = [ELog (''INFO: New TFTP request ('' @ filename @ '') from ''
                      @ IP_String lb (IP raddr))];
          uri = fetchURI gs filename
      in case NewRequest lb ''GET'' uri of
           Inl err \<Rightarrow>
             (t0 @ [ELog (''ERR: http request setup failed: '' @ message err)], Some (Lib err))
         | Inr req0 \<Rightarrow>
             let t1 = t0 @ [ELog (''URI: '' @ uri)];
                 req = decorate lb gs filename raddr req0
             in (case httpClient gs req of
                   Inl err \<Rightarrow>
                     (t1 @ [EDo req, ELog (''ERR: http request failed: '' @ message err)],
                      Some (Lib err))
                 | Inr resp \<Rightarrow>
                     (case respond r resp of
                        (t2, res) \<Rightarrow> (t1 @ [EDo req] @ t2 @ [EClose (Body resp)], res))))"

subsection \<open>Startup: main\<close>

text \<open>
  The command line after \<open>flag.Parse\<close>, one field per flag; the timeout is a
  \<open>time.Duration\<close>, a number of nanoseconds.
\<close>

record flags =
  http_base_url :: string
  http_append_path :: bool
  tftp_timeout :: int
  tftp_bind_address :: string
  http_auth_user :: string
  http_auth_pass :: string

definition httpBaseUrlDefault :: string where
  "httpBaseUrlDefault = ''http://127.0.0.1/tftp''"

definition tftpTimeoutDefault :: int where
  "tftpTimeoutDefault = 5 * 1000000000"

definition tftpBindAddrDefault :: string where
  "tftpBindAddrDefault = '':69''"

definition appendPathDefault :: bool where
  "appendPathDefault = True"

definition flag_defaults :: flags where
  "flag_defaults =
     \<lparr>http_base_url = httpBaseUrlDefault, http_append_path = appendPathDefault,
      tftp_timeout = tftpTimeoutDefault, tftp_bind_address = tftpBindAddrDefault,
      http_auth_user = '''', http_auth_pass = ''''\<rparr>"

text \<open>
  The server \<open>main\<close> builds: the handler with the state it reads, the timeout and the
  address to bind. \<open>ListenAndServe2\<close> belongs to the TFTP library and \<open>SdNotify\<close> to the
  systemd library: the first tells whether the server got to listen (then it calls the
  function passed to it) and the error it ended with, the second what the notification
  returned.
\<close>

record 'b server =
  state :: "'b globalState"
  timeout :: int
  bindAddr :: string

record 'b sys =
  ListenAndServe2 :: "'b server \<Rightarrow> bool \<times> lib_error option"
  SdNotify :: "bool \<Rightarrow> string \<Rightarrow> lib_error + bool"

datatype 'b main_event =
  MLog string
  | MServe "'b server"
  | MNotify

definition onListen :: "'b sys \<Rightarrow> string \<Rightarrow> 'b main_event list" where
  "onListen os addr =
     [MLog (''INFO: Listening TFTP requests on: '' @ addr), MNotify] @
     (case SdNotify os True ''READY=1\<newline>'' of
        Inl err \<Rightarrow>
          [MLog (''WARN: Unable to send systemd daemon successful start message: ''
                 @ message err @ ''\<newline>'')]
      | Inr sent \<Rightarrow>
          if sent then [MLog ''DEBUG: Systemd was notified.\<newline>'']
          else [MLog ''DEBUG: Systemd notifications are not supported.\<newline>''])"

definition main ::
  "net_url \<Rightarrow> 'b sys \<Rightarrow> (request \<Rightarrow> lib_error + 'b response) \<Rightarrow> flags
     \<Rightarrow> 'b main_event list \<times> panic option" where
  "main url os client fl =
     (case parseBaseURL url (http_base_url fl) (http_append_path fl) of
        Inl p \<Rightarrow> ([], Some p)
      | Inr base \<Rightarrow>
          let gs = \<lparr>httpBaseUrl = base, httpClient = client,
                    appendPath = http_append_path fl,
                    authUsername = http_auth_user fl, authPassword = http_auth_pass fl\<rparr>;
              s = \<lparr>state = gs, timeout = tftp_timeout fl, bindAddr = tftp_bind_address fl\<rparr>;
              t = MServe s #
                  (if fst (ListenAndServe2 os s) then onListen os (tftp_bind_address fl) else [])
          in (case snd (ListenAndServe2 os s) of
                Some e \<Rightarrow> (t, Some (Panicf (''FATAL: tftp server: '' @ message e @ ''\<newline>'')))
              | None \<Rightarrow> (t, None)))"

subsection \<open>Reading a trace\<close>

text \<open>
  The calls on the transfer, which are all the peer gets to see of a run (the size of the
  file and its bytes), the calls of \<open>Close\<close>, and everything but the log lines.
\<close>

fun is_sink :: "'b event \<Rightarrow> bool" where
  "is_sink (ESetSize n) = True"
| "is_sink (EReadFrom b) = True"
| "is_sink e = False"

fun is_close :: "'b event \<Rightarrow> bool" where
  "is_close (EClose b) = True"
| "is_close e = False"

fun is_log :: "'b event \<Rightarrow> bool" where
  "is_log (ELog m) = True"
| "is_log e = False"

definition sink_calls :: "'b event list \<Rightarrow> 'b event list" where
  "sink_calls t = filter is_sink t"

definition close_calls :: "'b event list \<Rightarrow> 'b event list" where
  "close_calls t = filter is_close t"

definition calls :: "'b event list \<Rightarrow> 'b event list" where
  "calls t = filter (\<lambda>e. \<not> is_log e) t"

subsection \<open>A setting to run the program in\<close>

text \<open>
  Sample behaviour of the libraries, of an origin and of a peer, for running the
  definitions on concrete input: an address parser that knows three inputs, a request
  constructor that rejects a bad escape, an origin with one file of four bytes, a
  directory listing of unknown length and a broken page, and a peer that takes every
  byte.
\<close>

definition url_ex :: net_url where
  "url_ex =
     \<lparr>ParseRequestURI = (\<lambda>s.
        if s = ''http://127.0.0.1/tftp'' then
          Inr \<lparr>Scheme = ''http'', Host = ''127.0.0.1'', Path = ''/tftp''\<rparr>
        else if s = ''http://host/x/'' then
          Inr \<lparr>Scheme = ''http'', Host = ''host'', Path = ''/x/''\<rparr>
        else if s = ''/x'' then Inr \<lparr>Scheme = '''', Host = '''', Path = ''/x''\<rparr>
        else Inl (LibError ''invalid URI for request'')),
      URL_String = (\<lambda>u. Scheme u @ ''://'' @ Host u @ Path u)\<rparr>"

definition lib_ex :: lib where
  "lib_ex =
     \<lparr>IP_String = (\<lambda>ip. ''10.0.0.7''),
      NewRequest_error = (\<lambda>method url.
        if CHR ''%'' \<in> set url then Some (LibError ''invalid URL escape'') else None)\<rparr>"

definition origin_ex :: "request \<Rightarrow> lib_error + string response" where
  "origin_ex req =
     (if RawURL req = ''http://host/x/a/b.bin'' then
        Inr \<lparr>StatusCode = 200, Status = ''200 OK'', ContentLength = 4, Body = ''BOOT''\<rparr>
      else if RawURL req = ''http://host/x/'' then
        Inr \<lparr>StatusCode = 200, Status = ''200 OK'', ContentLength = - 1, Body = ''a b.bin''\<rparr>
      else if RawURL req = ''http://host/x/broken'' then
        Inr \<lparr>StatusCode = 500, Status = ''500 Internal Server Error'', ContentLength = 3,
             Body = ''bad''\<rparr>
      else
        Inr \<lparr>StatusCode = 404, Status = ''404 Not Found'', ContentLength = 9,
             Body = ''not found''\<rparr>)"

definition gs_ex :: "string globalState" where
  "gs_ex =
     \<lparr>httpBaseUrl = ''http://host/x/'', httpClient = origin_ex, appendPath = True,
      authUsername = ''boot'', authPassword = ''''\<rparr>"

definition rf_ex :: "string rf" where
  "rf_ex =
     \<lparr>RemoteAddr = \<lparr>IP = [10, 0, 0, 7], Port = 1069\<rparr>,
      ReadFrom = (\<lambda>b. (int (length b), None))\<rparr>"


definition sys_ex :: "string sys" where
  "sys_ex =
     \<lparr>ListenAndServe2 = (\<lambda>s. (True, None)),
      SdNotify = (\<lambda>unset st. Inr False)\<rparr>"

section \<open>Properties\<close>

subsection \<open>Facts about the string functions\<close>

lemma TrimLeft_slash_split:
  "\<exists>n. s = replicate n CHR ''/'' @ TrimLeft s ''/''"
proof -
  let ?P = "\<lambda>c. c \<in> set ''/''"
  have "takeWhile ?P s = replicate (length (takeWhile ?P s)) CHR ''/''"
    by (induction s) auto
  moreover have "s = takeWhile ?P s @ dropWhile ?P s"
    by simp
  ultimately have "s = replicate (length (takeWhile ?P s)) CHR ''/'' @ TrimLeft s ''/''"
    unfolding TrimLeft_def by metis
  then show ?thesis ..
qed

lemma TrimLeft_head: "TrimLeft s ''/'' = c # t \<Longrightarrow> c \<noteq> CHR ''/''"
  unfolding TrimLeft_def using hd_dropWhile [of "\<lambda>c. c \<in> set ''/''" s] by auto

lemma TrimLeft_idem: "TrimLeft (TrimLeft s cutset) cutset = TrimLeft s cutset"
  by (simp add: TrimLeft_def)

lemma TrimLeft_all_cut: "set s \<subseteq> set cutset \<Longrightarrow> TrimLeft s cutset = []"
  by (auto simp: TrimLeft_def)

lemma HasSuffix_iff: "HasSuffix s suf \<longleftrightarrow> (\<exists>p. s = p @ suf)"
proof
  assume "HasSuffix s suf"
  then have "s = take (length s - length suf) s @ suf"
    unfolding HasSuffix_def by (metis append_take_drop_id)
  then show "\<exists>p. s = p @ suf" ..
next
  assume "\<exists>p. s = p @ suf"
  then show "HasSuffix s suf"
    unfolding HasSuffix_def by auto
qed

lemma HasSuffix_one_slash:
  assumes "\<not> HasSuffix s ''/''"
  shows "HasSuffix (s @ ''/'') ''/''" and "\<not> HasSuffix (s @ ''/'') ''//''"
proof -
  show "HasSuffix (s @ ''/'') ''/''"
    unfolding HasSuffix_iff by blast
  show "\<not> HasSuffix (s @ ''/'') ''//''"
  proof
    assume "HasSuffix (s @ ''/'') ''//''"
    then obtain p where "s @ ''/'' = p @ ''//''"
      unfolding HasSuffix_iff by blast
    then have "s = p @ ''/''"
      by simp
    with assms show False
      unfolding HasSuffix_iff by blast
  qed
qed

subsection \<open>The paths through the handler\<close>

text \<open>
  The handler has three ways out: the request cannot be built, the client returns an
  error, or a response arrives and \<open>respond\<close> decides.
\<close>

lemma handler_no_request:
  assumes "NewRequest lb ''GET'' (fetchURI gs filename) = Inl err"
  shows "tftpReadHandler lb gs filename r =
    ([ELog (''INFO: New TFTP request ('' @ filename @ '') from ''
            @ IP_String lb (IP (RemoteAddr r))),
      ELog (''ERR: http request setup failed: '' @ message err)], Some (Lib err))"
  using assms by (simp add: tftpReadHandler_def Let_def)

lemma handler_no_response:
  assumes "NewRequest lb ''GET'' (fetchURI gs filename) = Inr req0"
    and "httpClient gs (decorate lb gs filename (RemoteAddr r) req0) = Inl err"
  shows "tftpReadHandler lb gs filename r =
    ([ELog (''INFO: New TFTP request ('' @ filename @ '') from ''
            @ IP_String lb (IP (RemoteAddr r))),
      ELog (''URI: '' @ fetchURI gs filename),
      EDo (decorate lb gs filename (RemoteAddr r) req0),
      ELog (''ERR: http request failed: '' @ message err)], Some (Lib err))"
  using assms by (simp add: tftpReadHandler_def Let_def)

lemma handler_response:
  assumes "NewRequest lb ''GET'' (fetchURI gs filename) = Inr req0"
    and "httpClient gs (decorate lb gs filename (RemoteAddr r) req0) = Inr resp"
  shows "tftpReadHandler lb gs filename r =
    ([ELog (''INFO: New TFTP request ('' @ filename @ '') from ''
            @ IP_String lb (IP (RemoteAddr r))),
      ELog (''URI: '' @ fetchURI gs filename),
      EDo (decorate lb gs filename (RemoteAddr r) req0)]
     @ fst (respond r resp) @ [EClose (Body resp)], snd (respond r resp))"
  using assms by (simp add: tftpReadHandler_def Let_def split: prod.splits)

lemma handler_dispatch:
  assumes "EDo req \<in> set (fst (tftpReadHandler lb gs filename r))"
  shows "\<exists>req0. NewRequest lb ''GET'' (fetchURI gs filename) = Inr req0 \<and>
            req = decorate lb gs filename (RemoteAddr r) req0"
proof (cases "NewRequest lb ''GET'' (fetchURI gs filename)")
  case (Inl err)
  with assms show ?thesis
    by (simp add: handler_no_request)
next
  case (Inr req0)
  have no_do: "EDo req \<notin> set (fst (respond r resp))" for resp
    by (auto simp: respond_def Let_def split: option.splits)
  show ?thesis
  proof (cases "httpClient gs (decorate lb gs filename (RemoteAddr r) req0)")
    case (Inl err)
    with Inr assms show ?thesis
      by (simp add: handler_no_response)
  next
    case (Inr resp)
    with \<open>NewRequest lb ''GET'' (fetchURI gs filename) = Inr req0\<close> assms no_do show ?thesis
      by (simp add: handler_response)
  qed
qed

lemma respond_sink:
  "sink_calls (fst (respond r resp)) =
     (if StatusCode resp = 200
      then (if 0 \<le> ContentLength resp then [ESetSize (ContentLength resp)] else [])
           @ [EReadFrom (Body resp)]
      else [])"
  by (simp add: respond_def sink_calls_def StatusOK_def StatusNotFound_def Let_def
      split: option.splits)

lemma respond_result:
  "snd (respond r resp) =
     (if StatusCode resp = 404 then Some (Errorf ''File not found'')
      else if StatusCode resp \<noteq> 200
      then Some (Errorf (''HTTP request error: '' @ Status resp))
      else map_option Lib (snd (ReadFrom r (Body resp))))"
  by (simp add: respond_def StatusOK_def StatusNotFound_def Let_def split: option.splits)

lemma respond_no_close: "close_calls (fst (respond r resp)) = []"
  by (simp add: respond_def close_calls_def Let_def split: option.splits)

lemma decorate_fields:
  "Header (decorate lb gs filename raddr req0) =
     Header req0 @ [(''X-TFTP-IP'', IP_String lb (IP raddr)),
                    (''X-TFTP-Port'', Sprintf_d (Port raddr)),
                    (''X-TFTP-File'', filename)]"
  "BasicAuth (decorate lb gs filename raddr req0) =
     (if authUsername gs \<noteq> '''' then Some (authUsername gs, authPassword gs)
      else BasicAuth req0)"
  "Method (decorate lb gs filename raddr req0) = Method req0"
  "RawURL (decorate lb gs filename raddr req0) = RawURL req0"
  by (simp_all add: decorate_def Header_Add_def SetBasicAuth_def Let_def)

lemma NewRequest_Inr:
  "NewRequest lb method url = Inr req0 \<Longrightarrow>
     req0 = \<lparr>Method = method, RawURL = url, Header = [], BasicAuth = None\<rparr>"
  by (auto simp: NewRequest_def split: option.splits)

lemma main_serve:
  assumes "MServe s \<in> set (fst (main url os client fl))"
  shows "\<exists>base. parseBaseURL url (http_base_url fl) (http_append_path fl) = Inr base \<and>
           state s = \<lparr>httpBaseUrl = base, httpClient = client,
                      appendPath = http_append_path fl,
                      authUsername = http_auth_user fl, authPassword = http_auth_pass fl\<rparr>"
proof (cases "parseBaseURL url (http_base_url fl) (http_append_path fl)")
  case (Inl p)
  with assms show ?thesis
    by (simp add: main_def)
next
  case (Inr base)
  have "MServe s \<notin> set (onListen os addr)" for addr
    by (simp add: onListen_def split: sum.splits)
  with Inr assms show ?thesis
    by (auto simp: main_def Let_def split: option.splits if_splits)
qed

text \<open>The requests of the sample setting.\<close>

lemma ex_requests:
  "NewRequest lib_ex ''GET'' (fetchURI gs_ex ''nothing'')
     = Inr \<lparr>Method = ''GET'', RawURL = ''http://host/x/nothing'', Header = [],
            BasicAuth = None\<rparr>"
  "NewRequest lib_ex ''GET'' (fetchURI gs_ex ''broken'')
     = Inr \<lparr>Method = ''GET'', RawURL = ''http://host/x/broken'', Header = [],
            BasicAuth = None\<rparr>"
  "NewRequest lib_ex ''GET'' (fetchURI gs_ex ''/a/b.bin'')
     = Inr \<lparr>Method = ''GET'', RawURL = ''http://host/x/a/b.bin'', Header = [],
            BasicAuth = None\<rparr>"
  "NewRequest lib_ex ''GET'' (fetchURI gs_ex ''///'')
     = Inr \<lparr>Method = ''GET'', RawURL = ''http://host/x/'', Header = [], BasicAuth = None\<rparr>"
  "NewRequest lib_ex ''GET'' (fetchURI gs_ex ''%zz'') = Inl (LibError ''invalid URL escape'')"
  by (simp_all add: NewRequest_def lib_ex_def fetchURI_def gs_ex_def TrimLeft_def)

lemma ex_client: "httpClient gs_ex req = origin_ex req"
  by (simp add: gs_ex_def)

lemma ex_responses:
  "httpClient gs_ex (decorate lib_ex gs_ex ''/a/b.bin'' (RemoteAddr rf_ex)
      \<lparr>Method = ''GET'', RawURL = ''http://host/x/a/b.bin'', Header = [], BasicAuth = None\<rparr>)
    = Inr \<lparr>StatusCode = 200, Status = ''200 OK'', ContentLength = 4, Body = ''BOOT''\<rparr>"
  "httpClient gs_ex (decorate lib_ex gs_ex ''///'' (RemoteAddr rf_ex)
      \<lparr>Method = ''GET'', RawURL = ''http://host/x/'', Header = [], BasicAuth = None\<rparr>)
    = Inr \<lparr>StatusCode = 200, Status = ''200 OK'', ContentLength = - 1, Body = ''a b.bin''\<rparr>"
  "httpClient gs_ex (decorate lib_ex gs_ex ''broken'' (RemoteAddr rf_ex)
      \<lparr>Method = ''GET'', RawURL = ''http://host/x/broken'', Header = [], BasicAuth = None\<rparr>)
    = Inr \<lparr>StatusCode = 500, Status = ''500 Internal Server Error'', ContentLength = 3,
           Body = ''bad''\<rparr>"
  "httpClient gs_ex (decorate lib_ex gs_ex ''nothing'' (RemoteAddr rf_ex)
      \<lparr>Method = ''GET'', RawURL = ''http://host/x/nothing'', Header = [], BasicAuth = None\<rparr>)
    = Inr \<lparr>StatusCode = 404, Status = ''404 Not Found'', ContentLength = 9,
           Body = ''not found''\<rparr>"
  by (simp_all add: ex_client origin_ex_def decorate_fields)

lemma ex_port: "Sprintf_d 1069 = ''1069''"
  by code_simp

lemma ex_parse:
  "parseBaseURL url_ex ''/x'' True = Inl (Panicf ''FATAL: invalid base URL: No scheme found.\<newline>'')"
  "parseBaseURL url_ex ''host/x'' True
     = Inl (Panicf ''FATAL: invalid base URL: invalid URI for request\<newline>'')"
  "parseBaseURL url_ex ''http://127.0.0.1/tftp'' True = Inr ''http://127.0.0.1/tftp/''"
  "parseBaseURL url_ex ''http://127.0.0.1/tftp'' False = Inr ''http://127.0.0.1/tftp''"
  "parseBaseURL url_ex ''http://host/x/'' True = Inr ''http://host/x/''"
  by (simp_all add: parseBaseURL_def url_ex_def HasSuffix_def)

lemma ex_main:
  "MServe \<lparr>state = gs_ex\<lparr>authUsername := ''''\<rparr>, timeout = 5000000000, bindAddr = '':69''\<rparr>
     \<in> set (fst (main url_ex sys_ex origin_ex (flag_defaults\<lparr>http_base_url := ''http://host/x/''\<rparr>)))"
  by (simp add: main_def ex_parse flag_defaults_def appendPathDefault_def tftpTimeoutDefault_def
      tftpBindAddrDefault_def gs_ex_def sys_ex_def Let_def)

subsection \<open>The address of the fetch\<close>

text \<open>
  C1. When \<open>appendPath\<close> is set, the address fetched is the base address followed by the
  file name without its leading separators: what is appended is what remains of the name
  after some number of \<open>/\<close>, it does not start with \<open>/\<close>, and stripping it again changes
  nothing. When \<open>appendPath\<close> is not set, the address is the base address and the file
  name has no part in it. Every request the handler sends is a GET for that address.
\<close>

theorem fetch_target:
  "(appendPath gs \<longrightarrow>
      fetchURI gs filename = httpBaseUrl gs @ TrimLeft filename ''/'' \<and>
      (\<exists>n. filename = replicate n CHR ''/'' @ TrimLeft filename ''/'') \<and>
      (\<forall>t. TrimLeft filename ''/'' \<noteq> CHR ''/'' # t) \<and>
      TrimLeft (TrimLeft filename ''/'') ''/'' = TrimLeft filename ''/'') \<and>
   (\<not> appendPath gs \<longrightarrow> fetchURI gs filename = httpBaseUrl gs) \<and>
   (\<forall>req. EDo req \<in> set (fst (tftpReadHandler lb gs filename r)) \<longrightarrow>
      Method req = ''GET'' \<and> RawURL req = fetchURI gs filename)"
proof -
  have "Method req = ''GET'' \<and> RawURL req = fetchURI gs filename"
    if "EDo req \<in> set (fst (tftpReadHandler lb gs filename r))" for req
    using handler_dispatch [OF that] by (auto simp: decorate_fields dest: NewRequest_Inr)
  moreover have "\<forall>t. TrimLeft filename ''/'' \<noteq> CHR ''/'' # t"
    using TrimLeft_head [of filename] by blast
  ultimately show ?thesis
    using TrimLeft_slash_split [of filename]
    by (simp add: fetchURI_def TrimLeft_idem)
qed

text \<open>
  The second scenario of the specification: base address \<open>http://host/x/\<close> and file name
  \<open>/a/b.bin\<close>, with \<open>appendPath\<close> set and not set.
\<close>

theorem fetch_target_witness:
  "appendPath gs_ex \<and> fetchURI gs_ex ''/a/b.bin'' = ''http://host/x/a/b.bin'' \<and>
   \<not> appendPath (gs_ex\<lparr>appendPath := False\<rparr>) \<and>
   fetchURI (gs_ex\<lparr>appendPath := False\<rparr>) ''/a/b.bin'' = ''http://host/x/''"
  using fetch_target [of gs_ex "''/a/b.bin''" lib_ex rf_ex]
    fetch_target [of "gs_ex\<lparr>appendPath := False\<rparr>" "''/a/b.bin''" lib_ex rf_ex]
  by (simp add: gs_ex_def TrimLeft_def)

subsection \<open>The status of the response\<close>




subsection \<open>The size before the bytes\<close>

text \<open>
  C3. When the response has status 200 and a length that is not negative, the calls on
  the transfer are \<open>SetSize\<close> with exactly that length and then \<open>ReadFrom\<close> with the
  body, in this order and nothing else. When the length is negative the only call is
  \<open>ReadFrom\<close>. In both cases the handler returns what the transfer returned, so a
  missing length is no error.
\<close>

theorem size_hint_before_bytes:
  assumes "NewRequest lb ''GET'' (fetchURI gs filename) = Inr req0"
    and "httpClient gs (decorate lb gs filename (RemoteAddr r) req0) = Inr resp"
    and "StatusCode resp = 200"
  shows "(0 \<le> ContentLength resp \<longrightarrow>
            sink_calls (fst (tftpReadHandler lb gs filename r))
              = [ESetSize (ContentLength resp), EReadFrom (Body resp)]) \<and>
         (ContentLength resp < 0 \<longrightarrow>
            sink_calls (fst (tftpReadHandler lb gs filename r)) = [EReadFrom (Body resp)]) \<and>
         snd (tftpReadHandler lb gs filename r) = map_option Lib (snd (ReadFrom r (Body resp)))"
proof -
  have "sink_calls (fst (tftpReadHandler lb gs filename r)) = sink_calls (fst (respond r resp))"
    by (simp add: handler_response [OF assms(1,2)] sink_calls_def)
  moreover have "snd (tftpReadHandler lb gs filename r) = snd (respond r resp)"
    by (simp add: handler_response [OF assms(1,2)])
  ultimately show ?thesis
    using assms(3) by (simp add: respond_sink respond_result)
qed

text \<open>The file of the sample origin has a length, its directory listing has none.\<close>

theorem size_hint_before_bytes_witness:
  "sink_calls (fst (tftpReadHandler lib_ex gs_ex ''/a/b.bin'' rf_ex))
     = [ESetSize 4, EReadFrom ''BOOT''] \<and>
   sink_calls (fst (tftpReadHandler lib_ex gs_ex ''///'' rf_ex)) = [EReadFrom ''a b.bin''] \<and>
   snd (tftpReadHandler lib_ex gs_ex ''///'' rf_ex) = None"
  using size_hint_before_bytes [OF ex_requests(3) ex_responses(1)]
    size_hint_before_bytes [OF ex_requests(4) ex_responses(2)]
  by (simp add: rf_ex_def)

subsection \<open>The base address at startup\<close>

text \<open>
  C4. \<open>parseBaseURL\<close> returns an address exactly when the parser accepts the input and
  the parsed address has a scheme and a host, both not empty. When the parser fails, or
  the scheme is empty, or the host is empty, it panics with a message that starts with
  \<open>FATAL: invalid base URL:\<close>; and when it panics, \<open>main\<close> ends with that panic before
  it has done anything: no server is started.
\<close>

theorem resolve_succeeds_iff:
  "((\<exists>base. parseBaseURL url baseUrl ap = Inr base) \<longleftrightarrow>
      (\<exists>u. ParseRequestURI url baseUrl = Inr u \<and> Scheme u \<noteq> '''' \<and> Host u \<noteq> '''')) \<and>
   ((\<forall>u. ParseRequestURI url baseUrl = Inr u \<longrightarrow> Scheme u = '''' \<or> Host u = '''') \<longrightarrow>
      (\<exists>m. parseBaseURL url baseUrl ap = Inl (Panicf (''FATAL: invalid base URL: '' @ m)))) \<and>
   (\<forall>p. parseBaseURL url (http_base_url fl) (http_append_path fl) = Inl p \<longrightarrow>
      main url os client fl = ([], Some p))"
proof (intro conjI)
  show "(\<exists>base. parseBaseURL url baseUrl ap = Inr base) \<longleftrightarrow>
      (\<exists>u. ParseRequestURI url baseUrl = Inr u \<and> Scheme u \<noteq> '''' \<and> Host u \<noteq> '''')"
    by (cases "ParseRequestURI url baseUrl") (auto simp: parseBaseURL_def Let_def)
  show "(\<forall>u. ParseRequestURI url baseUrl = Inr u \<longrightarrow> Scheme u = '''' \<or> Host u = '''') \<longrightarrow>
      (\<exists>m. parseBaseURL url baseUrl ap = Inl (Panicf (''FATAL: invalid base URL: '' @ m)))"
    by (cases "ParseRequestURI url baseUrl") (auto simp: parseBaseURL_def Let_def)
  show "\<forall>p. parseBaseURL url (http_base_url fl) (http_append_path fl) = Inl p \<longrightarrow>
      main url os client fl = ([], Some p)"
    by (simp add: main_def)
qed

text \<open>The default base address is accepted; a path without scheme and host is not.\<close>

theorem resolve_succeeds_iff_witness:
  "(\<exists>base. parseBaseURL url_ex ''http://127.0.0.1/tftp'' True = Inr base) \<and>
   (\<exists>u. ParseRequestURI url_ex ''http://127.0.0.1/tftp'' = Inr u \<and> Scheme u \<noteq> '''' \<and>
        Host u \<noteq> '''') \<and>
   parseBaseURL url_ex ''/x'' True
     = Inl (Panicf ''FATAL: invalid base URL: No scheme found.\<newline>'') \<and>
   main url_ex sys_ex origin_ex (flag_defaults\<lparr>http_base_url := ''/x''\<rparr>)
     = ([], Some (Panicf ''FATAL: invalid base URL: No scheme found.\<newline>''))"
  using resolve_succeeds_iff [of url_ex "''http://127.0.0.1/tftp''" True
      "flag_defaults\<lparr>http_base_url := ''/x''\<rparr>" sys_ex origin_ex]
  by (simp add: ex_parse flag_defaults_def appendPathDefault_def)

text \<open>
  C5. For an input the parser accepts with a scheme and a host: when \<open>appendPath\<close> is
  set and the text of the parsed address does not end in \<open>/\<close>, the result is that text
  followed by one \<open>/\<close>, so it ends in \<open>/\<close> and not in \<open>//\<close>; when \<open>appendPath\<close> is not
  set, the result is the text of the parsed address unchanged.
\<close>

theorem resolve_trailing_separator:
  assumes "ParseRequestURI url baseUrl = Inr u" and "Scheme u \<noteq> ''''" and "Host u \<noteq> ''''"
  shows "(\<not> HasSuffix (URL_String url u) ''/'' \<longrightarrow>
            (\<exists>base. parseBaseURL url baseUrl True = Inr base \<and>
                    base = URL_String url u @ ''/'' \<and>
                    HasSuffix base ''/'' \<and> \<not> HasSuffix base ''//'')) \<and>
         parseBaseURL url baseUrl False = Inr (URL_String url u)"
  using assms by (simp add: parseBaseURL_def HasSuffix_one_slash)

text \<open>The default base address, \<open>http://127.0.0.1/tftp\<close>.\<close>

theorem resolve_trailing_separator_witness:
  "ParseRequestURI url_ex ''http://127.0.0.1/tftp''
     = Inr \<lparr>Scheme = ''http'', Host = ''127.0.0.1'', Path = ''/tftp''\<rparr> \<and>
   \<not> HasSuffix ''http://127.0.0.1/tftp'' ''/'' \<and>
   parseBaseURL url_ex ''http://127.0.0.1/tftp'' True = Inr ''http://127.0.0.1/tftp/'' \<and>
   HasSuffix ''http://127.0.0.1/tftp/'' ''/'' \<and>
   \<not> HasSuffix ''http://127.0.0.1/tftp/'' ''//'' \<and>
   parseBaseURL url_ex ''http://127.0.0.1/tftp'' False = Inr ''http://127.0.0.1/tftp''"
proof -
  have p: "ParseRequestURI url_ex ''http://127.0.0.1/tftp''
     = Inr \<lparr>Scheme = ''http'', Host = ''127.0.0.1'', Path = ''/tftp''\<rparr>"
    by (simp add: url_ex_def)
  have s: "URL_String url_ex \<lparr>Scheme = ''http'', Host = ''127.0.0.1'', Path = ''/tftp''\<rparr>
     = ''http://127.0.0.1/tftp''"
    by (simp add: url_ex_def)
  have n: "\<not> HasSuffix ''http://127.0.0.1/tftp'' ''/''"
    by (simp add: HasSuffix_def)
  show ?thesis
    using resolve_trailing_separator [OF p] n by (simp add: s p)
qed

subsection \<open>The request that is sent\<close>

text \<open>
  C6. Every request the handler sends carries three header fields: the peer's address,
  the peer's port in decimal, and the file name as the handler received it, with its
  leading separators. It carries the configured user name and password, whatever the
  password, when the user name is not empty, and no credentials when it is empty.
\<close>

theorem request_metadata:
  assumes "EDo req \<in> set (fst (tftpReadHandler lb gs filename r))"
  shows "Header req = [(''X-TFTP-IP'', IP_String lb (IP (RemoteAddr r))),
                       (''X-TFTP-Port'', Sprintf_d (Port (RemoteAddr r))),
                       (''X-TFTP-File'', filename)] \<and>
         (authUsername gs \<noteq> '''' \<longrightarrow>
            BasicAuth req = Some (authUsername gs, authPassword gs)) \<and>
         (authUsername gs = '''' \<longrightarrow> BasicAuth req = None)"
  using handler_dispatch [OF assms] by (auto simp: decorate_fields dest: NewRequest_Inr)

text \<open>The sixth scenario of the specification: a user name and an empty password.\<close>

theorem request_metadata_witness:
  "\<exists>req. EDo req \<in> set (fst (tftpReadHandler lib_ex gs_ex ''/a/b.bin'' rf_ex)) \<and>
      Header req = [(''X-TFTP-IP'', ''10.0.0.7''), (''X-TFTP-Port'', ''1069''),
                    (''X-TFTP-File'', ''/a/b.bin'')] \<and>
      authUsername gs_ex = ''boot'' \<and> BasicAuth req = Some (''boot'', '''')"
proof -
  let ?req = "decorate lib_ex gs_ex ''/a/b.bin'' (RemoteAddr rf_ex)
      \<lparr>Method = ''GET'', RawURL = ''http://host/x/a/b.bin'', Header = [], BasicAuth = None\<rparr>"
  have sent: "EDo ?req \<in> set (fst (tftpReadHandler lib_ex gs_ex ''/a/b.bin'' rf_ex))"
    by (simp add: handler_response [OF ex_requests(3) ex_responses(1)])
  have "Header ?req = [(''X-TFTP-IP'', ''10.0.0.7''), (''X-TFTP-Port'', ''1069''),
                    (''X-TFTP-File'', ''/a/b.bin'')] \<and>
      authUsername gs_ex = ''boot'' \<and> BasicAuth ?req = Some (''boot'', '''')"
    using request_metadata [OF sent] by (simp add: lib_ex_def rf_ex_def gs_ex_def ex_port)
  with sent show ?thesis
    by blast
qed

subsection \<open>Closing the response\<close>

text \<open>
  C7. Once the fetch has returned a response, whatever its status and whatever the
  transfer does, the last thing the handler does is close the body of that response,
  and it closes it once.
\<close>

theorem response_always_closed:
  assumes "NewRequest lb ''GET'' (fetchURI gs filename) = Inr req0"
    and "httpClient gs (decorate lb gs filename (RemoteAddr r) req0) = Inr resp"
  shows "last (fst (tftpReadHandler lb gs filename r)) = EClose (Body resp) \<and>
         close_calls (fst (tftpReadHandler lb gs filename r)) = [EClose (Body resp)]"
proof -
  have "close_calls (fst (tftpReadHandler lb gs filename r))
      = close_calls (fst (respond r resp)) @ [EClose (Body resp)]"
    by (simp add: handler_response [OF assms] close_calls_def)
  then show ?thesis
    by (simp add: handler_response [OF assms] respond_no_close)
qed

text \<open>A missing file and a file that is there.\<close>

theorem response_always_closed_witness:
  "last (fst (tftpReadHandler lib_ex gs_ex ''nothing'' rf_ex)) = EClose ''not found'' \<and>
   close_calls (fst (tftpReadHandler lib_ex gs_ex ''nothing'' rf_ex)) = [EClose ''not found''] \<and>
   close_calls (fst (tftpReadHandler lib_ex gs_ex ''/a/b.bin'' rf_ex)) = [EClose ''BOOT'']"
  using response_always_closed [OF ex_requests(1) ex_responses(4)]
    response_always_closed [OF ex_requests(3) ex_responses(1)]
  by simp

subsection \<open>Errors that leave the transfer alone\<close>

text \<open>
  C8. When the response has any status but 200, 404 included, the handler returns an
  error and makes no call on the transfer: neither \<open>SetSize\<close> nor \<open>ReadFrom\<close>.
\<close>

theorem error_status_leaves_sink_untouched:
  assumes "NewRequest lb ''GET'' (fetchURI gs filename) = Inr req0"
    and "httpClient gs (decorate lb gs filename (RemoteAddr r) req0) = Inr resp"
    and "StatusCode resp \<noteq> 200"
  shows "(\<exists>e. snd (tftpReadHandler lb gs filename r) = Some e) \<and>
         sink_calls (fst (tftpReadHandler lb gs filename r)) = []"
proof -
  have "sink_calls (fst (tftpReadHandler lb gs filename r)) = sink_calls (fst (respond r resp))"
    by (simp add: handler_response [OF assms(1,2)] sink_calls_def)
  moreover have "snd (tftpReadHandler lb gs filename r) = snd (respond r resp)"
    by (simp add: handler_response [OF assms(1,2)])
  ultimately show ?thesis
    using assms(3) by (simp add: respond_sink respond_result)
qed

text \<open>A broken page (status 500) and a missing file (status 404).\<close>

theorem error_status_leaves_sink_untouched_witness:
  "(\<exists>e. snd (tftpReadHandler lib_ex gs_ex ''broken'' rf_ex) = Some e) \<and>
   sink_calls (fst (tftpReadHandler lib_ex gs_ex ''broken'' rf_ex)) = [] \<and>
   sink_calls (fst (tftpReadHandler lib_ex gs_ex ''nothing'' rf_ex)) = []"
  using error_status_leaves_sink_untouched [OF ex_requests(2) ex_responses(3)]
    error_status_leaves_sink_untouched [OF ex_requests(1) ex_responses(4)]
  by simp

text \<open>
  C9. When \<open>http.NewRequest\<close> fails on the address, the handler returns that error and
  has done nothing but write log lines: it has sent no request, so there is none to
  carry header fields, and it has made no call on the transfer.
\<close>

theorem request_setup_failure:
  assumes "NewRequest lb ''GET'' (fetchURI gs filename) = Inl err"
  shows "snd (tftpReadHandler lb gs filename r) = Some (Lib err) \<and>
         calls (fst (tftpReadHandler lb gs filename r)) = []"
  by (simp add: handler_no_request [OF assms] calls_def)

text \<open>A file name with a bad escape.\<close>

theorem request_setup_failure_witness:
  "snd (tftpReadHandler lib_ex gs_ex ''%zz'' rf_ex) = Some (Lib (LibError ''invalid URL escape'')) \<and>
   calls (fst (tftpReadHandler lib_ex gs_ex ''%zz'' rf_ex)) = []"
  using request_setup_failure [OF ex_requests(5)] by simp

subsection \<open>File names made of separators\<close>

text \<open>
  C10. When \<open>appendPath\<close> is set and the file name is empty or consists of \<open>/\<close> only,
  the address fetched is the base address itself; in a server started by \<open>main\<close> this is
  the address \<open>parseBaseURL\<close> returned. The handler has no error of its own for such a
  name: when the request for the base address can be built it is sent, and when the
  response has status 200 and the transfer succeeds the handler returns \<open>nil\<close>.
\<close>

theorem separator_only_filename:
  assumes "set filename \<subseteq> {CHR ''/''}" and "appendPath gs"
  shows "fetchURI gs filename = httpBaseUrl gs \<and>
         (\<forall>s. MServe s \<in> set (fst (main url os client fl)) \<and> http_append_path fl \<longrightarrow>
            parseBaseURL url (http_base_url fl) True = Inr (fetchURI (state s) filename)) \<and>
         (\<forall>req0. NewRequest lb ''GET'' (httpBaseUrl gs) = Inr req0 \<longrightarrow>
            EDo (decorate lb gs filename (RemoteAddr r) req0)
              \<in> set (fst (tftpReadHandler lb gs filename r))) \<and>
         (\<forall>req0 resp.
            NewRequest lb ''GET'' (httpBaseUrl gs) = Inr req0 \<and>
            httpClient gs (decorate lb gs filename (RemoteAddr r) req0) = Inr resp \<and>
            StatusCode resp = 200 \<and> snd (ReadFrom r (Body resp)) = None \<longrightarrow>
            snd (tftpReadHandler lb gs filename r) = None)"
proof -
  have trim: "TrimLeft filename ''/'' = []"
    using assms(1) by (simp add: TrimLeft_all_cut)
  have uri: "fetchURI g filename = httpBaseUrl g" for g :: "'c globalState"
    by (simp add: fetchURI_def Let_def trim)
  have served: "parseBaseURL url (http_base_url fl) True = Inr (fetchURI (state s) filename)"
    if "MServe s \<in> set (fst (main url os client fl))" and "http_append_path fl" for s
    using main_serve [OF that(1)] that(2) by (auto simp: uri)
  have sent: "EDo (decorate lb gs filename (RemoteAddr r) req0)
      \<in> set (fst (tftpReadHandler lb gs filename r))"
    if "NewRequest lb ''GET'' (httpBaseUrl gs) = Inr req0" for req0
  proof (cases "httpClient gs (decorate lb gs filename (RemoteAddr r) req0)")
    case (Inl err)
    with that show ?thesis
      by (simp add: handler_no_response uri)
  next
    case (Inr resp)
    with that show ?thesis
      by (simp add: handler_response uri)
  qed
  have completes: "snd (tftpReadHandler lb gs filename r) = None"
    if "NewRequest lb ''GET'' (httpBaseUrl gs) = Inr req0"
      and "httpClient gs (decorate lb gs filename (RemoteAddr r) req0) = Inr resp"
      and "StatusCode resp = 200" and "snd (ReadFrom r (Body resp)) = None" for req0 resp
    using that by (simp add: handler_response uri respond_result)
  from uri served sent completes show ?thesis
    by blast
qed

text \<open>The file name \<open>///\<close> on the sample origin, which answers with its directory listing.\<close>

theorem separator_only_filename_witness:
  "set ''///'' \<subseteq> {CHR ''/''} \<and> appendPath gs_ex \<and>
   fetchURI gs_ex ''///'' = ''http://host/x/'' \<and>
   parseBaseURL url_ex ''http://host/x/'' True
     = Inr (fetchURI (gs_ex\<lparr>authUsername := ''''\<rparr>) ''///'') \<and>
   snd (tftpReadHandler lib_ex gs_ex ''///'' rf_ex) = None"
proof -
  have a: "set ''///'' \<subseteq> {CHR ''/''}" and b: "appendPath gs_ex"
    by (simp_all add: gs_ex_def)
  have c: "httpBaseUrl gs_ex = ''http://host/x/''"
    by (simp add: gs_ex_def)
  have d: "http_append_path (flag_defaults\<lparr>http_base_url := ''http://host/x/''\<rparr>)"
    "http_base_url (flag_defaults\<lparr>http_base_url := ''http://host/x/''\<rparr>) = ''http://host/x/''"
    by (simp_all add: flag_defaults_def appendPathDefault_def)
  have e: "NewRequest lib_ex ''GET'' ''http://host/x/''
     = Inr \<lparr>Method = ''GET'', RawURL = ''http://host/x/'', Header = [], BasicAuth = None\<rparr>"
    by (simp add: NewRequest_def lib_ex_def)
  have f: "snd (ReadFrom rf_ex ''a b.bin'') = None"
    by (simp add: rf_ex_def)
  show ?thesis
    using separator_only_filename [OF a b, of url_ex sys_ex origin_ex
        "flag_defaults\<lparr>http_base_url := ''http://host/x/''\<rparr>" lib_ex rf_ex]
      ex_main ex_responses(2) a b
    by (simp add: c d e f)
qed

end
